theory Spec2Isabelle
  imports Complex_Main
begin

section \<open>JavaScript values\<close>

text \<open>
  The service works on untyped JavaScript values. The embedding keeps the kinds of value
  the data model of the specification names: \<open>undefined\<close>, \<open>null\<close>, booleans, numbers,
  strings, \<open>Date\<close> objects, arrays and plain objects. It adds what a property read on
  such a value can find by inheritance: the prototype objects \<open>Object.prototype\<close> and
  \<open>Date.prototype\<close> and their built-in functions.

  \<^item> \<open>Num\<close> carries an integer of magnitude at most \<open>2\<^sup>5\<^sup>3\<close>: a number that a double
    represents exactly and prints with all its digits. Fractional numbers, \<open>NaN\<close> and
    the infinities are not record values of the model; they appear as results of
    conversions (type \<open>number\<close> below).
  \<^item> \<open>Str\<close> carries the code units of a string, one \<open>char\<close> each, for the strings
    whose code units are below 256.
  \<^item> \<open>Date\<close> carries the time value that \<open>getTime()\<close> returns: \<open>Some ms\<close>, or \<open>None\<close>
    for an invalid date, whose time value is \<open>NaN\<close>.
  \<^item> \<open>Obj\<close> carries the own enumerable string-keyed properties of a plain object, in the
    order in which \<open>Object.entries\<close> lists them. JavaScript objects have no duplicate
    keys; a property read takes the first entry of a key.
  \<^item> \<open>Prototype p\<close> is the prototype object \<open>p\<close> itself, and \<open>Method p name\<close> is the
    built-in function that \<open>p\<close> holds under \<open>name\<close> (\<open>Method ObjectProto ''constructor''\<close>
    is \<open>Object\<close>). A function is not an object for \<open>typeof\<close>.
  \<^item> A value is a finite tree: a structure cannot contain itself. Plain objects, arrays
    and dates have no identity in the model; the service never compares two of them by
    reference on a path that \<open>isEligible\<close> reaches. The prototypes and their functions
    exist once and are the same wherever they are met.
\<close>

datatype proto = ObjectProto | DateProto

datatype jsval =
    Undefined
  | Null
  | Bool bool
  | Num int
  | Str string
  | Date "int option"
  | Arr "jsval list"
  | Obj "(string \<times> jsval) list"
  | Prototype proto
  | Method proto string

text \<open>
  The two exceptions a call can end with. \<open>InvalidCriteriaError\<close> is the one class the
  service declares (its \<open>name\<close> is fixed by the constructor, its message is the
  argument); \<open>TypeError\<close> is the built-in error the JavaScript runtime raises.
\<close>

datatype error = InvalidCriteriaError string | TypeError

fun error_name :: "error \<Rightarrow> string" where
  "error_name (InvalidCriteriaError message) = ''InvalidCriteriaError''"
| "error_name TypeError = ''TypeError''"

text \<open>\<open>isObject\<close> of utils.js: \<open>typeof value === 'object' && value !== null\<close>.\<close>

fun isObject :: "jsval \<Rightarrow> bool" where
  "isObject (Date t) = True"
| "isObject (Arr xs) = True"
| "isObject (Obj m) = True"
| "isObject (Prototype p) = True"
| "isObject v = False"

text \<open>\<open>Array.isArray\<close>.\<close>

fun isArray :: "jsval \<Rightarrow> bool" where
  "isArray (Arr xs) = True"
| "isArray v = False"

text \<open>The elements of an array, for \<open>some\<close>, \<open>map\<close> and \<open>includes\<close>.\<close>

fun elements :: "jsval \<Rightarrow> jsval list" where
  "elements (Arr xs) = xs"
| "elements v = []"

text \<open>
  A measure for the recursions below: every element of an array and everything a
  property read on an object returns, inherited or not, is smaller than its owner.
\<close>

fun vsize :: "jsval \<Rightarrow> nat" where
  "vsize (Arr xs) = 3 + sum_list (map vsize xs)"
| "vsize (Obj m) = 3 + sum_list (map (\<lambda>kv. vsize (snd kv)) m)"
| "vsize (Date t) = 3"
| "vsize (Prototype DateProto) = 2"
| "vsize (Prototype ObjectProto) = 1"
| "vsize v = 0"

section \<open>Built-in operations of the language\<close>

subsection \<open>Iteration with exceptions\<close>

text \<open>
  \<open>Array.prototype.every\<close> and \<open>some\<close> call the callback from left to right and stop at
  the first falsy (truthy) result; an exception thrown by the callback ends the whole
  call.
\<close>

fun every_e :: "('a \<Rightarrow> error + bool) \<Rightarrow> 'a list \<Rightarrow> error + bool" where
  "every_e f [] = Inr True"
| "every_e f (x # xs) =
     (case f x of
        Inl e \<Rightarrow> Inl e
      | Inr b \<Rightarrow> if b then every_e f xs else Inr False)"

fun some_e :: "('a \<Rightarrow> error + bool) \<Rightarrow> 'a list \<Rightarrow> error + bool" where
  "some_e f [] = Inr False"
| "some_e f (x # xs) =
     (case f x of
        Inl e \<Rightarrow> Inl e
      | Inr b \<Rightarrow> if b then Inr True else some_e f xs)"

lemma every_e_cong [fundef_cong]:
  "xs = ys \<Longrightarrow> (\<And>x. x \<in> set ys \<Longrightarrow> f x = g x) \<Longrightarrow> every_e f xs = every_e g ys"
  by (induction ys arbitrary: xs) (auto split: sum.splits)

lemma some_e_cong [fundef_cong]:
  "xs = ys \<Longrightarrow> (\<And>x. x \<in> set ys \<Longrightarrow> f x = g x) \<Longrightarrow> some_e f xs = some_e g ys"
  by (induction ys arbitrary: xs) (auto split: sum.splits)

subsection \<open>Numbers and strings\<close>

text \<open>
  The decimal digits of an integer: array indices as property keys, and the string of a
  number of the model.
\<close>

definition digit_char :: "int \<Rightarrow> char" where
  "digit_char d = char_of (48 + d)"

function show_digits :: "int \<Rightarrow> string" where
  "show_digits n =
     (if n < 10 then [digit_char n]
      else show_digits (n div 10) @ [digit_char (n mod 10)])"
  by pat_completeness auto
termination
  by (relation "measure (\<lambda>n. nat n)") auto

declare show_digits.simps [simp del]

definition show_nat :: "nat \<Rightarrow> string" where
  "show_nat n = show_digits (int n)"

definition show_int :: "int \<Rightarrow> string" where
  "show_int i = (if i < 0 then CHR ''-'' # show_digits (- i) else show_digits i)"

text \<open>
  The Number values a conversion can produce: \<open>NaN\<close>, the two infinities and the finite
  doubles, each given by its exact rational value. The two zeros are one value: nothing
  in the service tells them apart.
\<close>

datatype number = NaN | Fin rat | PosInf | NegInf

fun negate :: "number \<Rightarrow> number" where
  "negate (Fin r) = Fin (- r)"
| "negate PosInf = NegInf"
| "negate NegInf = PosInf"
| "negate NaN = NaN"

text \<open>
  Rounding a rational to the nearest double, ties to the even significand: 53 bits of
  significand, the smallest unit \<open>2\<^sup>-\<^sup>1\<^sup>0\<^sup>7\<^sup>4\<close>, and an infinity for what rounds to
  \<open>2\<^sup>1\<^sup>0\<^sup>2\<^sup>4\<close> or beyond. \<open>binary_exponent a\<close> is the \<open>e\<close> with \<open>2\<^sup>e \<le> a < 2\<^sup>e\<^sup>+\<^sup>1\<close>, found from the
  bit lengths of numerator and denominator.
\<close>

definition pow_int :: "rat \<Rightarrow> int \<Rightarrow> rat" where
  "pow_int b k = (if 0 \<le> k then b ^ nat k else 1 / b ^ nat (- k))"

function bit_length :: "int \<Rightarrow> int" where
  "bit_length n = (if n \<le> 0 then 0 else 1 + bit_length (n div 2))"
  by pat_completeness auto
termination
  by (relation "measure (\<lambda>n. nat n)") auto

declare bit_length.simps [simp del]

definition binary_exponent :: "rat \<Rightarrow> int" where
  "binary_exponent a =
     (let (p, q) = quotient_of a;
          d = bit_length p - bit_length q
      in if pow_int 2 d \<le> a then d else d - 1)"

definition round_half_even :: "rat \<Rightarrow> int" where
  "round_half_even x =
     (let f = \<lfloor>x\<rfloor>; d = x - of_int f
      in if d < 1 / 2 then f
         else if 1 / 2 < d then f + 1
         else if even f then f else f + 1)"

definition to_double :: "rat \<Rightarrow> number" where
  "to_double x =
     (if x = 0 then Fin 0
      else
        let a = \<bar>x\<bar>;
            ulp = pow_int 2 (max (binary_exponent a - 52) (- 1074));
            r = of_int (round_half_even (a / ulp)) * ulp
        in if pow_int 2 1024 \<le> r then (if x < 0 then NegInf else PosInf)
           else Fin (if x < 0 then - r else r))"

text \<open>
  \<open>StringToNumber\<close>, by the grammar of \<open>StringNumericLiteral\<close>: white space around the
  literal is dropped and the empty string is \<open>0\<close>; a decimal literal may have a sign, a
  fraction and an exponent, or be \<open>Infinity\<close>; a binary, octal or hexadecimal integer
  has its prefix and no sign; every other string is \<open>NaN\<close>. The value of the literal is
  rounded to a double. The white space is that of the code units below 256.
\<close>

definition is_space :: "char \<Rightarrow> bool" where
  "is_space c = ((of_char c :: nat) \<in> {9, 10, 11, 12, 13, 32, 160})"

definition trim :: "string \<Rightarrow> string" where
  "trim s = rev (dropWhile is_space (rev (dropWhile is_space s)))"

definition digit_value :: "char \<Rightarrow> nat option" where
  "digit_value c =
     (let n = (of_char c :: nat)
      in if 48 \<le> n \<and> n \<le> 57 then Some (n - 48)
         else if 97 \<le> n \<and> n \<le> 102 then Some (n - 87)
         else if 65 \<le> n \<and> n \<le> 70 then Some (n - 55)
         else None)"

definition is_digit_of :: "nat \<Rightarrow> char \<Rightarrow> bool" where
  "is_digit_of radix c = (case digit_value c of Some d \<Rightarrow> d < radix | None \<Rightarrow> False)"

definition digits_value :: "nat \<Rightarrow> string \<Rightarrow> int" where
  "digits_value radix ds =
     foldl (\<lambda>a c. int radix * a + (case digit_value c of Some d \<Rightarrow> int d | None \<Rightarrow> 0)) 0 ds"

definition SignedInteger :: "string \<Rightarrow> int option" where
  "SignedInteger s =
     (let (negative, ds) =
            (case s of
               c # cs \<Rightarrow> if c = CHR ''+'' then (False, cs)
                         else if c = CHR ''-'' then (True, cs) else (False, s)
             | [] \<Rightarrow> (False, s))
      in if ds \<noteq> [] \<and> list_all (is_digit_of 10) ds
         then Some (if negative then - digits_value 10 ds else digits_value 10 ds)
         else None)"

definition ExponentPart :: "string \<Rightarrow> int option" where
  "ExponentPart s =
     (case s of
        [] \<Rightarrow> Some 0
      | c # cs \<Rightarrow> if c = CHR ''e'' \<or> c = CHR ''E'' then SignedInteger cs else None)"

definition StrUnsignedDecimalLiteral :: "string \<Rightarrow> number option" where
  "StrUnsignedDecimalLiteral s =
     (if s = ''Infinity'' then Some PosInf
      else
        let ip = takeWhile (is_digit_of 10) s;
            after = dropWhile (is_digit_of 10) s;
            dotted = (after \<noteq> [] \<and> hd after = CHR ''.'');
            fp = (if dotted then takeWhile (is_digit_of 10) (tl after) else []);
            rest = (if dotted then dropWhile (is_digit_of 10) (tl after) else after)
        in if ip = [] \<and> fp = [] then None
           else (case ExponentPart rest of
                   None \<Rightarrow> None
                 | Some e \<Rightarrow>
                     Some (to_double (of_int (digits_value 10 (ip @ fp))
                                       * pow_int 10 (e - int (length fp))))))"

definition NonDecimalIntegerLiteral :: "string \<Rightarrow> number option" where
  "NonDecimalIntegerLiteral s =
     (case s of
        z # x # ds \<Rightarrow>
          let radix =
                (if x = CHR ''x'' \<or> x = CHR ''X'' then 16
                 else if x = CHR ''o'' \<or> x = CHR ''O'' then 8
                 else if x = CHR ''b'' \<or> x = CHR ''B'' then 2 else 0)
          in if z = CHR ''0'' \<and> radix \<noteq> 0 \<and> ds \<noteq> [] \<and> list_all (is_digit_of radix) ds
             then Some (to_double (of_int (digits_value radix ds)))
             else None
      | _ \<Rightarrow> None)"

definition StringToNumber :: "string \<Rightarrow> number" where
  "StringToNumber s =
     (case trim s of
        [] \<Rightarrow> Fin 0
      | c # cs \<Rightarrow>
          (case (if c = CHR ''+'' then StrUnsignedDecimalLiteral cs
                 else if c = CHR ''-'' then map_option negate (StrUnsignedDecimalLiteral cs)
                 else StrUnsignedDecimalLiteral (c # cs)) of
             Some x \<Rightarrow> x
           | None \<Rightarrow>
               (case NonDecimalIntegerLiteral (c # cs) of Some x \<Rightarrow> x | None \<Rightarrow> NaN)))"

text \<open>Strings compare by code units, lexicographically.\<close>

fun str_less :: "string \<Rightarrow> string \<Rightarrow> bool" where
  "str_less [] [] = False"
| "str_less [] (y # ys) = True"
| "str_less (x # xs) [] = False"
| "str_less (x # xs) (y # ys) =
     ((of_char x :: nat) < of_char y \<or> (x = y \<and> str_less xs ys))"

subsection \<open>Primitive values and conversions\<close>

text \<open>
  The primitive values: what \<open>ToPrimitive\<close> returns. A number here is any Number
  value. \<open>is_primitive\<close> tells the values that are primitive from the objects of the
  language, functions included.
\<close>

datatype prim = PUndef | PNull | PBool bool | PNum number | PStr string

fun is_primitive :: "jsval \<Rightarrow> bool" where
  "is_primitive Undefined = True"
| "is_primitive Null = True"
| "is_primitive (Bool b) = True"
| "is_primitive (Num n) = True"
| "is_primitive (Str s) = True"
| "is_primitive v = False"

fun prim_of :: "jsval \<Rightarrow> prim" where
  "prim_of Null = PNull"
| "prim_of (Bool b) = PBool b"
| "prim_of (Num n) = PNum (Fin (of_int n))"
| "prim_of (Str s) = PStr s"
| "prim_of v = PUndef"

fun ToNumber :: "prim \<Rightarrow> number" where
  "ToNumber PUndef = NaN"
| "ToNumber PNull = Fin 0"
| "ToNumber (PBool b) = Fin (if b then 1 else 0)"
| "ToNumber (PNum x) = x"
| "ToNumber (PStr s) = StringToNumber s"

text \<open>\<open>getTime()\<close>: the time value of a date as a number.\<close>

fun getTime :: "int option \<Rightarrow> number" where
  "getTime None = NaN"
| "getTime (Some ms) = Fin (of_int ms)"

text \<open>
  \<open>Date.prototype.toString\<close> of a valid date renders the local time of the host, which
  depends on its time zone: the text is left unspecified, and an evaluation that needs
  it stops. An invalid date renders as \<open>Invalid Date\<close>.
\<close>

definition hostDateString :: "int \<Rightarrow> string" where
  "hostDateString = (SOME f. True)"

lemma hostDateString_code [code]:
  "hostDateString ms = Code.abort (STR ''Date.prototype.toString'') (\<lambda>_. hostDateString ms)"
  by simp

fun DateToString :: "int option \<Rightarrow> string" where
  "DateToString None = ''Invalid Date''"
| "DateToString (Some ms) = hostDateString ms"

text \<open>
  The source text of a built-in function, as Node prints it: the string that
  \<open>Function.prototype.toString\<close> returns.
\<close>

definition function_name :: "proto \<Rightarrow> string \<Rightarrow> string" where
  "function_name p name =
     (if name = ''constructor'' then (case p of ObjectProto \<Rightarrow> ''Object'' | DateProto \<Rightarrow> ''Date'')
      else name)"

definition function_source :: "proto \<Rightarrow> string \<Rightarrow> string" where
  "function_source p name = ''function '' @ function_name p name @ ''() { [native code] }''"

text \<open>
  \<open>ToString\<close> of a value. An array joins the strings of its elements with commas,
  \<open>undefined\<close> and \<open>null\<close> elements giving the empty string. A plain object gives
  \<open>[object Object]\<close> through the inherited \<open>toString\<close>, and so does
  \<open>Object.prototype\<close>. An own property \<open>toString\<close> shadows the inherited one; the
  documents hold data, that property is not a method, and the conversion then finds no
  method that returns a primitive and raises a \<open>TypeError\<close>. The methods of
  \<open>Date.prototype\<close> raise a \<open>TypeError\<close> on \<open>Date.prototype\<close> itself, which is not a
  date.
\<close>

fun join_e :: "(error + string) list \<Rightarrow> error + string" where
  "join_e [] = Inr []"
| "join_e [r] = r"
| "join_e (r # rs) =
     (case r of
        Inl e \<Rightarrow> Inl e
      | Inr s \<Rightarrow> (case join_e rs of Inl e \<Rightarrow> Inl e | Inr t \<Rightarrow> Inr (s @ '','' @ t)))"

definition ObjectToString :: "(string \<times> jsval) list \<Rightarrow> error + string" where
  "ObjectToString m =
     (if ''toString'' \<in> set (map fst m) then Inl TypeError else Inr ''[object Object]'')"

fun ToString :: "jsval \<Rightarrow> error + string" where
  "ToString Undefined = Inr ''undefined''"
| "ToString Null = Inr ''null''"
| "ToString (Bool b) = Inr (if b then ''true'' else ''false'')"
| "ToString (Num n) = Inr (show_int n)"
| "ToString (Str s) = Inr s"
| "ToString (Date t) = Inr (DateToString t)"
| "ToString (Obj m) = ObjectToString m"
| "ToString (Prototype ObjectProto) = Inr ''[object Object]''"
| "ToString (Prototype DateProto) = Inl TypeError"
| "ToString (Method p name) = Inr (function_source p name)"
| "ToString (Arr xs) =
     join_e (map (\<lambda>x. if x = Undefined \<or> x = Null then Inr [] else ToString x) xs)"

text \<open>
  \<open>ToPrimitive\<close> with its hint. The relational operators ask for a number, so a date
  gives its time value; \<open>==\<close> gives no hint, and a date then gives its string. The other
  objects and the functions give their string under either hint.
\<close>

datatype hint = HintNumber | HintDefault

fun ToPrimitive :: "hint \<Rightarrow> jsval \<Rightarrow> error + prim" where
  "ToPrimitive HintNumber (Date t) = Inr (PNum (getTime t))"
| "ToPrimitive HintDefault (Date t) = Inr (PStr (DateToString t))"
| "ToPrimitive h (Arr xs) = map_sum id PStr (ToString (Arr xs))"
| "ToPrimitive h (Obj m) = map_sum id PStr (ObjectToString m)"
| "ToPrimitive h (Prototype p) = map_sum id PStr (ToString (Prototype p))"
| "ToPrimitive h (Method p name) = map_sum id PStr (ToString (Method p name))"
| "ToPrimitive h v = Inr (prim_of v)"

subsection \<open>Equality and comparison\<close>

text \<open>
  \<open>x === y\<close> on two numbers: \<open>NaN\<close> equals nothing, itself included.
\<close>

definition number_equal :: "number \<Rightarrow> number \<Rightarrow> bool" where
  "number_equal x y = (x \<noteq> NaN \<and> x = y)"

text \<open>
  \<open>x < y\<close> on two numbers: \<open>None\<close> is the \<open>undefined\<close> result of the comparison, when an
  operand is \<open>NaN\<close>.
\<close>

fun number_less :: "number \<Rightarrow> number \<Rightarrow> bool option" where
  "number_less NaN y = None"
| "number_less x NaN = None"
| "number_less (Fin a) (Fin b) = Some (a < b)"
| "number_less NegInf NegInf = Some False"
| "number_less NegInf y = Some True"
| "number_less PosInf y = Some False"
| "number_less x PosInf = Some True"
| "number_less x NegInf = Some False"

text \<open>
  \<open>x == y\<close> on two primitive values. A boolean operand is converted to a number first;
  \<open>undefined\<close> and \<open>null\<close> equal each other and nothing else; a number and a string
  compare as numbers.
\<close>

fun unbool :: "prim \<Rightarrow> prim" where
  "unbool (PBool b) = PNum (ToNumber (PBool b))"
| "unbool p = p"

fun loose_equal_unbool :: "prim \<Rightarrow> prim \<Rightarrow> bool" where
  "loose_equal_unbool PUndef PUndef = True"
| "loose_equal_unbool PUndef PNull = True"
| "loose_equal_unbool PNull PUndef = True"
| "loose_equal_unbool PNull PNull = True"
| "loose_equal_unbool (PNum x) (PNum y) = number_equal x y"
| "loose_equal_unbool (PStr s) (PStr t) = (s = t)"
| "loose_equal_unbool (PNum x) (PStr t) = number_equal x (StringToNumber t)"
| "loose_equal_unbool (PStr s) (PNum y) = number_equal (StringToNumber s) y"
| "loose_equal_unbool p q = False"

definition prim_loose_equal :: "prim \<Rightarrow> prim \<Rightarrow> bool" where
  "prim_loose_equal p q = loose_equal_unbool (unbool p) (unbool q)"

text \<open>
  Whether two values that are not primitive are the same object. The record and the
  criteria are separate documents, so a plain object, an array or a date met in one is
  never the one met in the other; a prototype or a built-in function is itself.
\<close>

fun same_object :: "jsval \<Rightarrow> jsval \<Rightarrow> bool" where
  "same_object (Prototype p) (Prototype q) = (p = q)"
| "same_object (Method p name) (Method q name') = (p = q \<and> name = name')"
| "same_object a b = False"

text \<open>
  \<open>a == b\<close> on values. Two objects are equal when they are the same object. An object
  against \<open>undefined\<close> or \<open>null\<close> is unequal without any conversion; against another
  primitive the object is converted first, which may raise.
\<close>

definition loose_equal :: "jsval \<Rightarrow> jsval \<Rightarrow> error + bool" where
  "loose_equal a b =
     (if is_primitive a \<and> is_primitive b then Inr (prim_loose_equal (prim_of a) (prim_of b))
      else if is_primitive b then
        (if b = Undefined \<or> b = Null then Inr False
         else map_sum id (\<lambda>p. prim_loose_equal p (prim_of b)) (ToPrimitive HintDefault a))
      else if is_primitive a then
        (if a = Undefined \<or> a = Null then Inr False
         else map_sum id (\<lambda>q. prim_loose_equal (prim_of a) q) (ToPrimitive HintDefault b))
      else Inr (same_object a b))"

text \<open>
  The abstract relational comparison \<open>p < q\<close> on primitives. Two strings compare as
  strings, everything else as numbers.
\<close>

fun prim_less :: "prim \<Rightarrow> prim \<Rightarrow> bool option" where
  "prim_less (PStr s) (PStr t) = Some (str_less s t)"
| "prim_less p q = number_less (ToNumber p) (ToNumber q)"

text \<open>
  The four comparison functions the registry passes to \<open>_compareValues\<close>:
  \<open>(x, y) => x > y\<close>, \<open>x < y\<close>, \<open>x >= y\<close> and \<open>x <= y\<close>.
\<close>

datatype compareFn = Greater | Less | GreaterEq | LessEq

fun compare_prims :: "compareFn \<Rightarrow> prim \<Rightarrow> prim \<Rightarrow> bool" where
  "compare_prims Less p q = (prim_less p q = Some True)"
| "compare_prims Greater p q = (prim_less q p = Some True)"
| "compare_prims LessEq p q = (prim_less q p = Some False)"
| "compare_prims GreaterEq p q = (prim_less p q = Some False)"

definition apply_compareFn :: "compareFn \<Rightarrow> jsval \<Rightarrow> jsval \<Rightarrow> error + bool" where
  "apply_compareFn f x y =
     (case ToPrimitive HintNumber x of
        Inl e \<Rightarrow> Inl e
      | Inr p \<Rightarrow>
         (case ToPrimitive HintNumber y of
            Inl e \<Rightarrow> Inl e
          | Inr q \<Rightarrow> Inr (compare_prims f p q)))"

text \<open>
  \<open>b.includes(a)\<close> compares with SameValueZero: primitives by type and value, objects
  by identity.
\<close>

definition array_includes :: "jsval list \<Rightarrow> jsval \<Rightarrow> bool" where
  "array_includes b a = (if is_primitive a then a \<in> set b else list_ex (same_object a) b)"

subsection \<open>Objects, arrays and paths\<close>

text \<open>
  \<open>Object.entries\<close>: the own enumerable string-keyed properties. An array lists its
  indices, a string its characters, a date, a number and a boolean nothing;
  \<open>undefined\<close> and \<open>null\<close> cannot be converted to an object.
\<close>

fun own_entries :: "jsval \<Rightarrow> (string \<times> jsval) list" where
  "own_entries (Obj m) = m"
| "own_entries (Arr xs) = zip (map show_nat [0..<length xs]) xs"
| "own_entries (Str s) = zip (map show_nat [0..<length s]) (map (\<lambda>c. Str [c]) s)"
| "own_entries v = []"

definition Object_entries :: "jsval \<Rightarrow> error + (string \<times> jsval) list" where
  "Object_entries v =
     (if v = Undefined \<or> v = Null then Inl TypeError else Inr (own_entries v))"

text \<open>
  The property names of \<open>Object.prototype\<close> and of \<open>Date.prototype\<close> (ECMAScript 2024
  with its annex B). None of them is enumerable.
\<close>

definition ObjectPrototype_names :: "string list" where
  "ObjectPrototype_names =
     [''constructor'', ''__defineGetter__'', ''__defineSetter__'', ''hasOwnProperty'',
      ''__lookupGetter__'', ''__lookupSetter__'', ''isPrototypeOf'',
      ''propertyIsEnumerable'', ''toString'', ''valueOf'', ''__proto__'',
      ''toLocaleString'']"

definition DatePrototype_names :: "string list" where
  "DatePrototype_names =
     [''constructor'', ''toString'', ''toDateString'', ''toTimeString'', ''toISOString'',
      ''toUTCString'', ''toGMTString'', ''getDate'', ''setDate'', ''getDay'',
      ''getFullYear'', ''setFullYear'', ''getHours'', ''setHours'', ''getMilliseconds'',
      ''setMilliseconds'', ''getMinutes'', ''setMinutes'', ''getMonth'', ''setMonth'',
      ''getSeconds'', ''setSeconds'', ''getTime'', ''setTime'', ''getTimezoneOffset'',
      ''getUTCDate'', ''setUTCDate'', ''getUTCDay'', ''getUTCFullYear'', ''setUTCFullYear'',
      ''getUTCHours'', ''setUTCHours'', ''getUTCMilliseconds'', ''setUTCMilliseconds'',
      ''getUTCMinutes'', ''setUTCMinutes'', ''getUTCMonth'', ''setUTCMonth'',
      ''getUTCSeconds'', ''setUTCSeconds'', ''valueOf'', ''getYear'', ''setYear'',
      ''toJSON'', ''toLocaleString'', ''toLocaleDateString'', ''toLocaleTimeString'']"

text \<open>
  A read that reaches a prototype. \<open>__proto__\<close> is an accessor of \<open>Object.prototype\<close>
  that returns the prototype of the object the read started from; the other names give
  the function the prototype holds. \<open>Date.prototype\<close> comes before \<open>Object.prototype\<close>
  and shadows four of its names; its \<open>toGMTString\<close> holds the function of
  \<open>toUTCString\<close>.
\<close>

definition ObjectPrototype_get :: "jsval \<Rightarrow> string \<Rightarrow> jsval" where
  "ObjectPrototype_get prototype_of_receiver key =
     (if key = ''__proto__'' then prototype_of_receiver
      else if key \<in> set ObjectPrototype_names then Method ObjectProto key
      else Undefined)"

definition DatePrototype_get :: "jsval \<Rightarrow> string \<Rightarrow> jsval" where
  "DatePrototype_get prototype_of_receiver key =
     (if key = ''toGMTString'' then Method DateProto ''toUTCString''
      else if key \<in> set DatePrototype_names then Method DateProto key
      else ObjectPrototype_get prototype_of_receiver key)"

text \<open>
  The property read \<open>o[key]\<close> on a value that is an object and not an array, which is
  where the service reads one: an own property first, then the prototype chain,
  \<open>undefined\<close> when the key is found nowhere. A plain object inherits from
  \<open>Object.prototype\<close>; a date has no own property and inherits from \<open>Date.prototype\<close>,
  which inherits from \<open>Object.prototype\<close>, whose prototype is \<open>null\<close>.
\<close>

fun get_property :: "jsval \<Rightarrow> string \<Rightarrow> jsval" where
  "get_property (Obj m) key =
     (case map_of m key of
        Some v \<Rightarrow> v
      | None \<Rightarrow> ObjectPrototype_get (Prototype ObjectProto) key)"
| "get_property (Date t) key = DatePrototype_get (Prototype DateProto) key"
| "get_property (Prototype DateProto) key = DatePrototype_get (Prototype ObjectProto) key"
| "get_property (Prototype ObjectProto) key = ObjectPrototype_get Null key"
| "get_property v key = Undefined"

text \<open>\<open>key.split('.')\<close>: the segments between the dots; never an empty list.\<close>

fun split_dot :: "string \<Rightarrow> string list" where
  "split_dot [] = [[]]"
| "split_dot (c # cs) =
     (if c = CHR ''.'' then [] # split_dot cs
      else (case split_dot cs of
              seg # segs \<Rightarrow> (c # seg) # segs
            | [] \<Rightarrow> [[c]]))"

text \<open>\<open>Array.prototype.flat()\<close>: one level of nested arrays is spliced in.\<close>

definition flat :: "jsval list \<Rightarrow> jsval list" where
  "flat xs = concat (map (\<lambda>x. case x of Arr ys \<Rightarrow> ys | _ \<Rightarrow> [x]) xs)"

section \<open>The eligibility service\<close>

text \<open>
  The functions of \<open>EligibilityService\<close> (eligibility.service.js), under their names
  without the leading underscore. A thrown exception is the result \<open>Inl\<close>; a returned
  value is \<open>Inr\<close> of its truthiness, which is all that \<open>every\<close>, \<open>some\<close> and the
  caller of \<open>isEligible\<close> read.
\<close>

subsection \<open>Comparing values\<close>

text \<open>\<open>_comparePrimitiveValues(a, b)\<close>: two dates by time value, anything else by \<open>==\<close>.\<close>

fun comparePrimitiveValues :: "jsval \<Rightarrow> jsval \<Rightarrow> error + bool" where
  "comparePrimitiveValues (Date x) (Date y) = Inr (number_equal (getTime x) (getTime y))"
| "comparePrimitiveValues a b = loose_equal a b"

text \<open>
  \<open>_compareValues(a, b, compareFn)\<close>: the comparison function on the time values of two
  dates, on the values themselves otherwise.
\<close>

fun compareValues :: "jsval \<Rightarrow> jsval \<Rightarrow> compareFn \<Rightarrow> error + bool" where
  "compareValues (Date x) (Date y) f =
     Inr (compare_prims f (PNum (getTime x)) (PNum (getTime y)))"
| "compareValues a b f = apply_compareFn f a b"

subsection \<open>The operator registry\<close>

text \<open>
  \<open>this.operations\<close> is an object literal with seven own properties. The lookup
  \<open>this.operations[op]\<close> also finds what the literal inherits from \<open>Object.prototype\<close>:
  for those names the lookup is truthy and \<open>_evaluateOperation\<close> does not throw its own
  error but calls what it found.
\<close>

datatype operation =
    OpGt | OpLt | OpGte | OpLte | OpIn | OpAnd | OpOr
  | Inherited string

definition operations :: "string \<Rightarrow> operation option" where
  "operations op =
     (if op = ''gt'' then Some OpGt
      else if op = ''lt'' then Some OpLt
      else if op = ''gte'' then Some OpGte
      else if op = ''lte'' then Some OpLte
      else if op = ''in'' then Some OpIn
      else if op = ''and'' then Some OpAnd
      else if op = ''or'' then Some OpOr
      else if op \<in> set ObjectPrototype_names then Some (Inherited op)
      else None)"

text \<open>
  Calling an inherited property as \<open>operation(cartValue, value)\<close>, a plain call with
  \<open>this\<close> undefined. \<open>Object\<close> returns an object and \<open>toString\<close> the string
  \<open>[object Undefined]\<close>, both truthy. \<open>isPrototypeOf\<close> returns \<open>false\<close> for a
  primitive argument before it looks at \<open>this\<close>. The other methods convert \<open>this\<close>
  to an object, and \<open>__proto__\<close> is not a function: a \<open>TypeError\<close>.
\<close>

definition call_inherited :: "string \<Rightarrow> jsval \<Rightarrow> error + bool" where
  "call_inherited name cartValue =
     (if name = ''constructor'' \<or> name = ''toString'' then Inr True
      else if name = ''isPrototypeOf'' \<and> is_primitive cartValue then Inr False
      else Inl TypeError)"

lemma vsize_elem: "x \<in> set xs \<Longrightarrow> vsize x \<le> sum_list (map vsize xs)"
  by (induction xs) auto

lemma vsize_snd: "(k, v) \<in> set m \<Longrightarrow> vsize v \<le> sum_list (map (\<lambda>kv. vsize (snd kv)) m)"
  by (induction m) auto

lemma vsize_own_entries:
  "isObject c \<Longrightarrow> (k, v) \<in> set (own_entries c) \<Longrightarrow> vsize v < vsize c"
proof (cases c)
  case (Arr xs)
  assume "(k, v) \<in> set (own_entries c)"
  with Arr have "v \<in> set xs" by (auto dest: set_zip_rightD)
  with Arr show ?thesis using vsize_elem [of v xs] by simp
next
  case (Obj m)
  assume "(k, v) \<in> set (own_entries c)"
  with Obj show ?thesis using vsize_snd [of k v m] by simp
qed auto

lemma vsize_Object_entries:
  "isObject c \<Longrightarrow> Object_entries c = Inr es \<Longrightarrow> (k, v) \<in> set es \<Longrightarrow> vsize v < vsize c"
  using vsize_own_entries [of c k v] by (auto simp: Object_entries_def split: if_splits)

subsection \<open>Operators\<close>

text \<open>
  \<open>_evaluateOperation(op, cartValue, value)\<close> and
  \<open>_evaluateLogicalOperation(logicalOp, cartValue, conditions)\<close>. In the second, a name
  other than \<open>and\<close> and \<open>or\<close> has no method and gives \<open>false\<close>, unless the table
  \<open>logicalOperations\<close> inherits it, when the method it names does not exist on the
  array; the registry only ever passes \<open>and\<close> and \<open>or\<close>.
\<close>

function evaluateOperation :: "string \<Rightarrow> jsval \<Rightarrow> jsval \<Rightarrow> error + bool"
  and evaluateLogicalOperation :: "string \<Rightarrow> jsval \<Rightarrow> jsval \<Rightarrow> error + bool" where
  "evaluateOperation op cartValue value =
     (case operations op of
        None \<Rightarrow> Inl (InvalidCriteriaError (''Unsupported operation: '' @ op))
      | Some OpGt \<Rightarrow> compareValues cartValue value Greater
      | Some OpLt \<Rightarrow> compareValues cartValue value Less
      | Some OpGte \<Rightarrow> compareValues cartValue value GreaterEq
      | Some OpLte \<Rightarrow> compareValues cartValue value LessEq
      | Some OpIn \<Rightarrow> Inr (isArray value \<and> array_includes (elements value) cartValue)
      | Some OpAnd \<Rightarrow> evaluateLogicalOperation ''and'' cartValue value
      | Some OpOr \<Rightarrow> evaluateLogicalOperation ''or'' cartValue value
      | Some (Inherited name) \<Rightarrow> call_inherited name cartValue)"
| "evaluateLogicalOperation logicalOp cartValue conditions =
     (if \<not> isObject conditions then
        Inl (InvalidCriteriaError
          (''Conditions for logical operation '' @ [CHR 0x27] @ logicalOp @ [CHR 0x27]
             @ '' must be an object''))
      else
        (case Object_entries conditions of
           Inl e \<Rightarrow> Inl e
         | Inr entries \<Rightarrow>
             if logicalOp = ''and'' then
               every_e (\<lambda>(op, value). evaluateOperation op cartValue value) entries
             else if logicalOp = ''or'' then
               some_e (\<lambda>(op, value). evaluateOperation op cartValue value) entries
             else if logicalOp \<in> set ObjectPrototype_names then Inl TypeError
             else Inr False))"
  by pat_completeness auto
termination
  by (relation "measure (\<lambda>x. case x of
          Inl (op, cartValue, operand) \<Rightarrow> 2 * vsize operand + 1
        | Inr (logicalOp, cartValue, conditions) \<Rightarrow> 2 * vsize conditions)")
     (auto dest: vsize_Object_entries)

declare evaluateOperation.simps [simp del] evaluateLogicalOperation.simps [simp del]

subsection \<open>Matching a condition\<close>

lemma vsize_elements: "isArray c \<Longrightarrow> x \<in> set (elements c) \<Longrightarrow> vsize x < vsize c"
  by (cases c) (auto dest: vsize_elem simp: less_Suc_eq_le)

lemma vsize_ObjectPrototype_get:
  "vsize r \<le> 1 \<Longrightarrow> vsize (ObjectPrototype_get r key) \<le> 1"
  by (simp add: ObjectPrototype_get_def)

lemma vsize_DatePrototype_get:
  "vsize r \<le> 1 \<Longrightarrow> vsize (DatePrototype_get r key) \<le> 1"
  using vsize_ObjectPrototype_get [of r key] by (simp add: DatePrototype_get_def)

lemma vsize_get_property:
  "isObject c \<Longrightarrow> \<not> isArray c \<Longrightarrow> vsize (get_property c key) < vsize c"
proof (cases c)
  case (Obj m)
  show ?thesis
  proof (cases "map_of m key")
    case None
    with Obj show ?thesis
      using vsize_ObjectPrototype_get [of "Prototype ObjectProto" key] by simp
  next
    case (Some v)
    then have "(key, v) \<in> set m" by (rule map_of_SomeD)
    with Obj Some show ?thesis using vsize_snd [of key v m] by simp
  qed
next
  case (Date t)
  show ?thesis
  proof (cases "key = ''__proto__''")
    case True
    with Date show ?thesis
      by (simp add: DatePrototype_get_def ObjectPrototype_get_def DatePrototype_names_def)
  next
    case False
    with Date show ?thesis
      by (simp add: DatePrototype_get_def ObjectPrototype_get_def)
  qed
next
  case (Prototype p)
  then show ?thesis
    using vsize_DatePrototype_get [of "Prototype ObjectProto" key]
    by (cases p) (simp_all add: ObjectPrototype_get_def)
qed auto

text \<open>
  \<open>_evaluateCondition(cartValue, condition)\<close>, with the four cases of the source in its
  order. In the third, \<open>condition[key]\<close> reads back the own property that
  \<open>Object.entries(condition)\<close> has just listed: \<open>subCondition\<close> is \<open>value\<close>.
\<close>

function evaluateCondition :: "jsval \<Rightarrow> jsval \<Rightarrow> error + bool" where
  "evaluateCondition cartValue condition =
     (if \<not> isObject condition \<and> \<not> isObject cartValue then
        comparePrimitiveValues cartValue condition
      else if isArray cartValue then
        some_e (\<lambda>value. evaluateCondition value condition) (elements cartValue)
      else if isObject cartValue then
        (case Object_entries condition of
           Inl e \<Rightarrow> Inl e
         | Inr entries \<Rightarrow>
             every_e (\<lambda>(key, value).
                 let subCondition = value in
                 if isArray value then
                   some_e (\<lambda>subValue. evaluateCondition (get_property cartValue key) subValue)
                     (elements value)
                 else evaluateCondition (get_property cartValue key) subCondition)
               entries)
      else
        (case Object_entries condition of
           Inl e \<Rightarrow> Inl e
         | Inr entries \<Rightarrow>
             every_e (\<lambda>(op, value). evaluateOperation op cartValue value) entries))"
  by pat_completeness auto
termination
  by (relation "measure (\<lambda>(cartValue, condition). vsize cartValue)")
     (auto simp: vsize_elements vsize_get_property)

declare evaluateCondition.simps [simp del]

subsection \<open>Resolving a path\<close>

text \<open>
  \<open>_getValueByKey(cart, key)\<close> folds the callback \<open>(acc, part) => ...\<close> over the
  segments of the key, starting from the cart. In the array case the callback calls
  \<open>_getValueByKey(item, part)\<close> with a single segment, which is one more application of
  the callback to the item: \<open>getValueByKey_step\<close> is the callback with that call
  unfolded, and \<open>getValueByKey_array\<close> below gives the equation in the source's form.
\<close>

fun getValueByKey_step :: "jsval \<Rightarrow> string \<Rightarrow> jsval" where
  "getValueByKey_step (Arr xs) part =
     Arr (flat (map (\<lambda>item. getValueByKey_step item part) xs))"
| "getValueByKey_step acc part =
     (if isObject acc then get_property acc part else Undefined)"

definition getValueByKey :: "jsval \<Rightarrow> string \<Rightarrow> jsval" where
  "getValueByKey cart key = foldl getValueByKey_step cart (split_dot key)"

subsection \<open>The entry point\<close>

text \<open>\<open>isEligible(cart, criteria)\<close>.\<close>

definition isEligible :: "jsval \<Rightarrow> jsval \<Rightarrow> error + bool" where
  "isEligible cart criteria =
     (if \<not> isObject cart \<or> \<not> isObject criteria then
        Inl (InvalidCriteriaError ''Both cart and criteria should be objects'')
      else
        (case Object_entries criteria of
           Inl e \<Rightarrow> Inl e
         | Inr entries \<Rightarrow>
             every_e (\<lambda>(key, condition).
                 evaluateCondition (getValueByKey cart key) condition)
               entries))"

section \<open>Unfolding the functions by case\<close>

text \<open>
  The segments that \<open>split\<close> returns hold no dot, and on a key without a dot
  \<open>_getValueByKey\<close> is one application of its callback. So the callback satisfies the
  equation the source writes for the array case, with the recursive call to
  \<open>_getValueByKey\<close> in it.
\<close>

lemma split_dot_no_dot: "CHR ''.'' \<notin> set part \<Longrightarrow> split_dot part = [part]"
  by (induction part) auto

lemma split_dot_segments: "seg \<in> set (split_dot key) \<Longrightarrow> CHR ''.'' \<notin> set seg"
  by (induction key arbitrary: seg) (auto split: if_splits list.splits)

lemma getValueByKey_segment:
  "CHR ''.'' \<notin> set part \<Longrightarrow> getValueByKey item part = getValueByKey_step item part"
  by (simp add: getValueByKey_def split_dot_no_dot)

lemma getValueByKey_array:
  "part \<in> set (split_dot key) \<Longrightarrow>
   getValueByKey_step (Arr xs) part = Arr (flat (map (\<lambda>item. getValueByKey item part) xs))"
  by (simp add: getValueByKey_segment split_dot_segments)

text \<open>The four cases of \<open>_evaluateCondition\<close>, each under the tests that select it.\<close>

lemma evaluateCondition_primitives:
  "\<not> isObject condition \<Longrightarrow> \<not> isObject cartValue \<Longrightarrow>
   evaluateCondition cartValue condition = comparePrimitiveValues cartValue condition"
  by (simp add: evaluateCondition.simps)

lemma evaluateCondition_array:
  "evaluateCondition (Arr xs) condition = some_e (\<lambda>v. evaluateCondition v condition) xs"
  by (subst evaluateCondition.simps) simp

lemma evaluateCondition_object:
  "isObject cartValue \<Longrightarrow> \<not> isArray cartValue \<Longrightarrow>
   evaluateCondition cartValue condition =
     (case Object_entries condition of
        Inl e \<Rightarrow> Inl e
      | Inr entries \<Rightarrow>
          every_e (\<lambda>(key, v).
              if isArray v then
                some_e (\<lambda>subValue. evaluateCondition (get_property cartValue key) subValue)
                  (elements v)
              else evaluateCondition (get_property cartValue key) v)
            entries)"
  by (subst evaluateCondition.simps) (simp add: Let_def cong: sum.case_cong)

lemma evaluateCondition_operators:
  "\<not> isObject cartValue \<Longrightarrow> isObject condition \<Longrightarrow>
   evaluateCondition cartValue condition =
     (case Object_entries condition of
        Inl e \<Rightarrow> Inl e
      | Inr entries \<Rightarrow> every_e (\<lambda>(op, v). evaluateOperation op cartValue v) entries)"
proof -
  assume prim: "\<not> isObject cartValue" and obj: "isObject condition"
  from prim have "\<not> isArray cartValue" by (cases cartValue) auto
  with prim obj show ?thesis by (subst evaluateCondition.simps) simp
qed

text \<open>\<open>every\<close> over a list in two parts, and what one false entry does to it.\<close>

lemma every_e_append:
  "every_e f (xs @ ys) =
     (case every_e f xs of Inl e \<Rightarrow> Inl e | Inr b \<Rightarrow> if b then every_e f ys else Inr False)"
  by (induction xs) (auto split: sum.splits)

lemma every_e_not_True: "x \<in> set xs \<Longrightarrow> f x = Inr False \<Longrightarrow> every_e f xs \<noteq> Inr True"
  by (induction xs) (auto split: sum.splits)

lemma every_e_reaches:
  "\<forall>x\<in>set before. f x = Inr True \<Longrightarrow>
   every_e f (before @ y # rest) =
     (case f y of Inl e \<Rightarrow> Inl e | Inr b \<Rightarrow> if b then every_e f rest else Inr False)"
  by (induction before) auto

lemma every_e_error: "every_e f xs = Inl e \<Longrightarrow> \<exists>x\<in>set xs. f x = Inl e"
  by (induction xs) (auto split: sum.splits if_splits)

lemma some_e_error: "some_e f xs = Inl e \<Longrightarrow> \<exists>x\<in>set xs. f x = Inl e"
  by (induction xs) (auto split: sum.splits if_splits)

section \<open>The errors raised below the entry point\<close>

text \<open>
  The conversions of the language raise nothing but a \<open>TypeError\<close>, so the comparisons
  do the same; the errors the service throws below \<open>isEligible\<close> carry the messages of
  \<open>_evaluateOperation\<close> and \<open>_evaluateLogicalOperation\<close>. None of them is the error of
  the check of the two arguments.
\<close>

lemma join_e_error: "join_e rs = Inl e \<Longrightarrow> Inl e \<in> set rs"
  by (induction rs rule: join_e.induct) (auto split: sum.splits)

lemma ToString_error: "ToString v = Inl e \<Longrightarrow> e = TypeError"
proof (induction v rule: ToString.induct)
  case (11 xs)
  from 11(2) have "Inl e \<in> set (map (\<lambda>x. if x = Undefined \<or> x = Null then Inr []
      else ToString x) xs)"
    by (auto dest: join_e_error)
  then obtain x where "x \<in> set xs" "x \<noteq> Undefined" "x \<noteq> Null" "ToString x = Inl e"
    by (auto split: if_splits)
  then show ?case using 11(1) by blast
qed (auto simp: ObjectToString_def split: if_splits)

lemma ToPrimitive_error: "ToPrimitive h v = Inl e \<Longrightarrow> e = TypeError"
  by (cases "(h, v)" rule: ToPrimitive.cases)
     (auto simp: ObjectToString_def map_sum_def simp del: ToString.simps
        dest: ToString_error split: if_splits sum.splits)

lemma loose_equal_error: "loose_equal a b = Inl e \<Longrightarrow> e = TypeError"
  by (auto simp: loose_equal_def map_sum_def dest: ToPrimitive_error split: if_splits sum.splits)

lemma comparePrimitiveValues_error: "comparePrimitiveValues a b = Inl e \<Longrightarrow> e = TypeError"
  by (cases "(a, b)" rule: comparePrimitiveValues.cases) (auto dest: loose_equal_error)

lemma apply_compareFn_error: "apply_compareFn f a b = Inl e \<Longrightarrow> e = TypeError"
  by (auto simp: apply_compareFn_def dest: ToPrimitive_error split: sum.splits)

lemma compareValues_error: "compareValues a b f = Inl e \<Longrightarrow> e = TypeError"
  by (cases "(a, b, f)" rule: compareValues.cases) (auto dest: apply_compareFn_error)

lemma evaluateOperation_error:
  "evaluateOperation op cartValue operand = Inl e \<longrightarrow>
     e \<noteq> InvalidCriteriaError ''Both cart and criteria should be objects''"
  "evaluateLogicalOperation logicalOp cartValue' conditions = Inl e \<longrightarrow>
     e \<noteq> InvalidCriteriaError ''Both cart and criteria should be objects''"
proof (induction op cartValue operand and logicalOp cartValue' conditions arbitrary: e and e
    rule: evaluateOperation_evaluateLogicalOperation.induct)
  case (1 op cartValue operand)
  show ?case
  proof
    assume err: "evaluateOperation op cartValue operand = Inl e"
    show "e \<noteq> InvalidCriteriaError ''Both cart and criteria should be objects''"
    proof (cases "operations op")
      case None
      with err show ?thesis by (auto simp: evaluateOperation.simps)
    next
      case (Some f)
      with err 1 show ?thesis
        by (cases f)
           (auto simp: evaluateOperation.simps call_inherited_def
              dest: compareValues_error split: if_splits)
    qed
  qed
next
  case (2 logicalOp cartValue conditions)
  show ?case
  proof
    assume err: "evaluateLogicalOperation logicalOp cartValue conditions = Inl e"
    show "e \<noteq> InvalidCriteriaError ''Both cart and criteria should be objects''"
    proof (cases "isObject conditions")
      case False
      with err show ?thesis by (auto simp: evaluateLogicalOperation.simps)
    next
      case True
      then obtain entries where ent: "Object_entries conditions = Inr entries"
        by (cases conditions) (auto simp: Object_entries_def)
      from err True ent have "logicalOp = ''and'' \<or> logicalOp = ''or'' \<or> e = TypeError"
        by (auto simp: evaluateLogicalOperation.simps split: if_splits)
      moreover have ?thesis if "logicalOp = ''and''"
      proof -
        from err True ent that
        obtain op v where "(op, v) \<in> set entries" "evaluateOperation op cartValue v = Inl e"
          by (auto simp: evaluateLogicalOperation.simps dest!: every_e_error)
        with 2(1) [OF _ ent that] True show ?thesis by auto
      qed
      moreover have ?thesis if "logicalOp = ''or''"
      proof -
        from err True ent that
        obtain op v where "(op, v) \<in> set entries" "evaluateOperation op cartValue v = Inl e"
          by (auto simp: evaluateLogicalOperation.simps dest!: some_e_error)
        with 2(2) [OF _ ent _ that] True that show ?thesis by auto
      qed
      ultimately show ?thesis by auto
    qed
  qed
qed

lemma evaluateCondition_error:
  "evaluateCondition cartValue condition = Inl e \<Longrightarrow>
   e \<noteq> InvalidCriteriaError ''Both cart and criteria should be objects''"
proof (induction cartValue condition arbitrary: e rule: evaluateCondition.induct)
  case (1 cartValue condition)
  note err = \<open>evaluateCondition cartValue condition = Inl e\<close>
  consider (prim) "\<not> isObject condition" "\<not> isObject cartValue"
    | (arr) "isArray cartValue"
    | (obj) "isObject cartValue" "\<not> isArray cartValue"
    | (ops) "\<not> isObject cartValue" "isObject condition"
    by (cases cartValue) auto
  then show ?case
  proof cases
    case prim
    with err show ?thesis
      by (auto simp: evaluateCondition_primitives dest: comparePrimitiveValues_error)
  next
    case arr
    then obtain xs where xs: "cartValue = Arr xs" by (cases cartValue) auto
    with err obtain x where "x \<in> set xs" "evaluateCondition x condition = Inl e"
      by (auto simp: evaluateCondition_array dest!: some_e_error)
    with 1(1) [of x e] xs show ?thesis by simp
  next
    case obj
    show ?thesis
    proof (cases "Object_entries condition")
      case (Inl e')
      with err obj show ?thesis
        by (auto simp: evaluateCondition_object Object_entries_def split: if_splits)
    next
      case (Inr entries)
      with err obj obtain key v where kv: "(key, v) \<in> set entries"
        and "(if isArray v then
                some_e (\<lambda>subValue. evaluateCondition (get_property cartValue key) subValue)
                  (elements v)
              else evaluateCondition (get_property cartValue key) v) = Inl e"
        by (auto simp: evaluateCondition_object dest!: every_e_error)
      then consider (some) sub where "isArray v" "sub \<in> set (elements v)"
            "evaluateCondition (get_property cartValue key) sub = Inl e"
        | (direct) "\<not> isArray v" "evaluateCondition (get_property cartValue key) v = Inl e"
        by (auto dest!: some_e_error split: if_splits)
      then show ?thesis
      proof cases
        case some
        with 1(2) [OF _ _ _ Inr kv refl refl] obj show ?thesis by auto
      next
        case direct
        with 1(3) [OF _ _ _ Inr kv refl refl] obj show ?thesis by auto
      qed
    qed
  next
    case ops
    then obtain entries where ent: "Object_entries condition = Inr entries"
      by (cases condition) (auto simp: Object_entries_def)
    with err ops obtain op v where "evaluateOperation op cartValue v = Inl e"
      by (auto simp: evaluateCondition_operators dest!: every_e_error)
    then show ?thesis using evaluateOperation_error(1) by blast
  qed
qed

section \<open>Properties\<close>

subsection \<open>A sequence as the condition of a primitive value\<close>

text \<open>
  C1. For the record \<open>{color: "red"}\<close> the criteria \<open>{"color": ["red", "blue"]}\<close> and
  \<open>{"color": ["green", "blue"]}\<close> are claimed to give true and false, an array-valued
  condition meaning that one of its elements matches. The code does this only below an
  object-valued record value, in the third case of \<open>_evaluateCondition\<close>: the record
  \<open>{item: {color: "red"}}\<close> with the same arrays under \<open>item\<close> gives true and false.
  Against the primitive \<open>"red"\<close> the array reaches the fourth case, which reads its
  indices as operator names, and the call throws \<open>Unsupported operation: 0\<close> for both
  criteria.
\<close>

theorem array_condition_on_primitive_throws:
  "isEligible (Obj [(''color'', Str ''red'')])
       (Obj [(''color'', Arr [Str ''red'', Str ''blue''])])
     = Inl (InvalidCriteriaError ''Unsupported operation: 0'')
   \<and> isEligible (Obj [(''color'', Str ''red'')])
       (Obj [(''color'', Arr [Str ''green'', Str ''blue''])])
     = Inl (InvalidCriteriaError ''Unsupported operation: 0'')
   \<and> isEligible (Obj [(''item'', Obj [(''color'', Str ''red'')])])
       (Obj [(''item'', Obj [(''color'', Arr [Str ''red'', Str ''blue''])])])
     = Inr True
   \<and> isEligible (Obj [(''item'', Obj [(''color'', Str ''red'')])])
       (Obj [(''item'', Obj [(''color'', Arr [Str ''green'', Str ''blue''])])])
     = Inr False"
  by code_simp

text \<open>The first of these calls, read off the theorem.\<close>

theorem array_condition_on_primitive_throws_witness:
  "isEligible (Obj [(''color'', Str ''red'')])
       (Obj [(''color'', Arr [Str ''red'', Str ''blue''])])
     \<noteq> Inr True"
  using array_condition_on_primitive_throws by simp

subsection \<open>An operator that is not registered\<close>

text \<open>
  C2, as amended. When a leaf condition names an operator that is neither one of the
  seven registered names nor a name the registry inherits from \<open>Object.prototype\<close>,
  \<open>_evaluateOperation\<close> throws an \<open>InvalidCriteriaError\<close> whose message is
  \<open>Unsupported operation: \<close> followed by the name, for every resolved value and operand;
  a condition on a primitive resolved value ends with that error when the operators
  listed before the unknown one hold. The error is of the one class the service has,
  the class of its other failures, and only the message tells them apart.
\<close>

theorem unsupported_operation_error:
  assumes "op \<notin> {''gt'', ''lt'', ''gte'', ''lte'', ''in'', ''and'', ''or''}"
    and "op \<notin> set ObjectPrototype_names"
  shows "evaluateOperation op cartValue operand
           = Inl (InvalidCriteriaError (''Unsupported operation: '' @ op))
     \<and> (\<not> isObject cartValue
          \<and> (\<forall>(op', operand')\<in>set before. evaluateOperation op' cartValue operand' = Inr True)
        \<longrightarrow> evaluateCondition cartValue (Obj (before @ (op, operand) # rest))
            = Inl (InvalidCriteriaError (''Unsupported operation: '' @ op)))
     \<and> error_name (InvalidCriteriaError (''Unsupported operation: '' @ op))
           = ''InvalidCriteriaError''"
proof -
  let ?f = "\<lambda>(op', operand'). evaluateOperation op' cartValue operand'"
  have thrown: "evaluateOperation op cartValue operand
          = Inl (InvalidCriteriaError (''Unsupported operation: '' @ op))"
    using assms by (simp add: evaluateOperation.simps operations_def)
  have "every_e ?f (before @ (op, operand) # rest)
          = Inl (InvalidCriteriaError (''Unsupported operation: '' @ op))"
    if "\<forall>(op', operand')\<in>set before. evaluateOperation op' cartValue operand' = Inr True"
  proof -
    from that have "\<forall>x\<in>set before. ?f x = Inr True" by auto
    then show ?thesis using thrown by (simp add: every_e_reaches)
  qed
  then show ?thesis
    using thrown by (simp add: evaluateCondition_operators Object_entries_def)
qed

text \<open>
  The example of the claim: the criteria \<open>{"age": {"foo": 1}}\<close> on a record whose
  \<open>age\<close> is the number 70.
\<close>

theorem unsupported_operation_error_witness:
  "isEligible (Obj [(''age'', Num 70)]) (Obj [(''age'', Obj [(''foo'', Num 1)])])
     = Inl (InvalidCriteriaError ''Unsupported operation: foo'')"
  using unsupported_operation_error [of "''foo''" "Num 70" "Num 1" "[]" "[]"]
  by (simp add: ObjectPrototype_names_def isEligible_def Object_entries_def getValueByKey_def)

text \<open>
  C2 as stated fails: the error for the unknown operator \<open>foo\<close> and the error for a
  record that is not an object are of the same class and carry the same name, so the
  caller cannot tell two kinds apart. The unregistered name \<open>toString\<close> raises no
  error at all, and neither does \<open>foo\<close> behind an operator that is false, where
  \<open>every\<close> has stopped.
\<close>

theorem unsupported_operation_same_kind:
  "isEligible (Obj [(''age'', Num 70)]) (Obj [(''age'', Obj [(''foo'', Num 1)])])
     = Inl (InvalidCriteriaError ''Unsupported operation: foo'')
   \<and> isEligible (Num 70) (Obj [(''age'', Obj [(''foo'', Num 1)])])
     = Inl (InvalidCriteriaError ''Both cart and criteria should be objects'')
   \<and> error_name (InvalidCriteriaError ''Unsupported operation: foo'')
     = error_name (InvalidCriteriaError ''Both cart and criteria should be objects'')
   \<and> isEligible (Obj [(''age'', Num 70)]) (Obj [(''age'', Obj [(''toString'', Num 1)])])
     = Inr True
   \<and> isEligible (Obj [(''age'', Num 70)])
       (Obj [(''age'', Obj [(''gt'', Num 100), (''foo'', Num 1)])])
     = Inr False"
  by code_simp

subsection \<open>Two dates\<close>

text \<open>
  C3. A date condition on a date value is claimed to match exactly when the two time
  values are equal. \<open>_comparePrimitiveValues\<close> compares two dates that way, but
  \<open>_evaluateCondition\<close> never calls it on them: a date is an object, so two dates reach
  the third case, where the condition has no entries and \<open>every\<close> is true. Condition
  matching of a date against a date succeeds whatever the two time values are.
\<close>

theorem date_condition_always_matches:
  "evaluateCondition (Date x) (Date y) = Inr True
   \<and> isEligible (Obj [(''d'', Date (Some 1))]) (Obj [(''d'', Date (Some 2))]) = Inr True
   \<and> comparePrimitiveValues (Date (Some 1)) (Date (Some 2)) = Inr False"
proof -
  have "evaluateCondition (Date x) (Date y) = Inr True"
    by (simp add: evaluateCondition_object Object_entries_def)
  moreover
  have "isEligible (Obj [(''d'', Date (Some 1))]) (Obj [(''d'', Date (Some 2))]) = Inr True"
    by code_simp
  moreover have "comparePrimitiveValues (Date (Some 1)) (Date (Some 2)) = Inr False"
    by (simp add: number_equal_def)
  ultimately show ?thesis by simp
qed

text \<open>The call on two different dates, read off the theorem.\<close>

theorem date_condition_always_matches_witness:
  "isEligible (Obj [(''d'', Date (Some 1))]) (Obj [(''d'', Date (Some 2))]) = Inr True"
  using date_condition_always_matches by simp

subsection \<open>The check of the two arguments\<close>

text \<open>
  C4, as amended. For every record or criteria argument that is not an object for
  \<open>isObject\<close>, which are \<open>undefined\<close>, \<open>null\<close>, the booleans, the numbers and the
  strings (and the functions, which \<open>typeof\<close> does not call objects), \<open>isEligible\<close>
  throws the \<open>InvalidCriteriaError\<close> of its first statement and returns no verdict,
  whatever the other argument is. The theorem adds the converse:
  when both arguments are objects, arrays included, the call does not end with that
  error.
\<close>

theorem isEligible_rejects_non_objects:
  "(\<not> isObject record \<or> \<not> isObject criteria \<longrightarrow>
      isEligible record criteria
        = Inl (InvalidCriteriaError ''Both cart and criteria should be objects''))
   \<and> (isObject record \<and> isObject criteria \<longrightarrow>
      isEligible record criteria
        \<noteq> Inl (InvalidCriteriaError ''Both cart and criteria should be objects''))
   \<and> (\<not> isObject v \<longleftrightarrow>
        v = Undefined \<or> v = Null \<or> (\<exists>b. v = Bool b) \<or> (\<exists>n. v = Num n) \<or> (\<exists>s. v = Str s)
        \<or> (\<exists>p name. v = Method p name))"
proof -
  have "isEligible record criteria
          \<noteq> Inl (InvalidCriteriaError ''Both cart and criteria should be objects'')"
    if objects: "isObject record \<and> isObject criteria"
  proof
    assume thrown: "isEligible record criteria
          = Inl (InvalidCriteriaError ''Both cart and criteria should be objects'')"
    from objects obtain entries where "Object_entries criteria = Inr entries"
      by (cases criteria) (auto simp: Object_entries_def)
    with objects thrown obtain key condition where
      "evaluateCondition (getValueByKey record key) condition
         = Inl (InvalidCriteriaError ''Both cart and criteria should be objects'')"
      by (auto simp: isEligible_def dest!: every_e_error)
    then show False using evaluateCondition_error by blast
  qed
  moreover have "\<not> isObject v \<longleftrightarrow>
      v = Undefined \<or> v = Null \<or> (\<exists>b. v = Bool b) \<or> (\<exists>n. v = Num n) \<or> (\<exists>s. v = Str s)
      \<or> (\<exists>p name. v = Method p name)"
    by (cases v) auto
  ultimately show ?thesis by (auto simp: isEligible_def)
qed

text \<open>A number as the record, and as the criteria.\<close>

theorem isEligible_rejects_non_objects_witness:
  "isEligible (Num 3) (Obj [])
     = Inl (InvalidCriteriaError ''Both cart and criteria should be objects'')
   \<and> isEligible (Obj []) (Num 3)
     = Inl (InvalidCriteriaError ''Both cart and criteria should be objects'')"
  using isEligible_rejects_non_objects [of "Num 3" "Obj []"]
    isEligible_rejects_non_objects [of "Obj []" "Num 3"]
  by simp

text \<open>
  C4 as stated fails for arrays: an array is an object for \<open>isObject\<close>, and
  \<open>isEligible\<close> returns a verdict for an array given as the record or as the criteria.
\<close>

theorem isEligible_accepts_arrays:
  "isEligible (Arr []) (Obj []) = Inr True \<and> isEligible (Obj []) (Arr []) = Inr True"
  by code_simp

subsection \<open>Failures other than the declared ones\<close>

text \<open>
  C5. Every accepted call is claimed to return a boolean or to throw one of the
  declared errors. The record \<open>{user: {age: 25}}\<close> with the criteria \<open>{"user": null}\<close>
  passes the check of the arguments; the third case of \<open>_evaluateCondition\<close> then asks
  for the entries of \<open>null\<close>, and the call ends with a \<open>TypeError\<close>. A path to an absent
  key does resolve to \<open>undefined\<close>, which equals \<open>null\<close> without an error.
\<close>

theorem null_condition_raises_TypeError:
  "isEligible (Obj [(''user'', Obj [(''age'', Num 25)])]) (Obj [(''user'', Null)])
     = Inl TypeError
   \<and> getValueByKey (Obj [(''user'', Obj [(''age'', Num 25)])]) ''account.owner'' = Undefined
   \<and> isEligible (Obj [(''user'', Obj [(''age'', Num 25)])]) (Obj [(''account.owner'', Null)])
     = Inr True"
  by code_simp

text \<open>The failing call, read off the theorem.\<close>

theorem null_condition_raises_TypeError_witness:
  "isEligible (Obj [(''user'', Obj [(''age'', Num 25)])]) (Obj [(''user'', Null)])
     = Inl TypeError"
  using null_condition_raises_TypeError by simp

subsection \<open>A path through an array\<close>

text \<open>
  C6. For the record \<open>{items: [{qty: 1}, {qty: 5}]}\<close> the path \<open>items.qty\<close> resolves to
  the sequence of the two quantities; \<open>isEligible\<close> with the criteria
  \<open>{"items.qty": {"gte": 3}}\<close> returns true, the second element satisfying the
  condition, and with \<open>{"items.qty": {"gte": 10}}\<close> it returns false.
\<close>

theorem path_broadcast_example:
  "getValueByKey (Obj [(''items'', Arr [Obj [(''qty'', Num 1)], Obj [(''qty'', Num 5)]])])
       ''items.qty''
     = Arr [Num 1, Num 5]
   \<and> isEligible (Obj [(''items'', Arr [Obj [(''qty'', Num 1)], Obj [(''qty'', Num 5)]])])
       (Obj [(''items.qty'', Obj [(''gte'', Num 3)])])
     = Inr True
   \<and> isEligible (Obj [(''items'', Arr [Obj [(''qty'', Num 1)], Obj [(''qty'', Num 5)]])])
       (Obj [(''items.qty'', Obj [(''gte'', Num 10)])])
     = Inr False"
  by code_simp

text \<open>The two verdicts, read off the theorem.\<close>

theorem path_broadcast_example_witness:
  "isEligible (Obj [(''items'', Arr [Obj [(''qty'', Num 1)], Obj [(''qty'', Num 5)]])])
       (Obj [(''items.qty'', Obj [(''gte'', Num 3)])])
     = Inr True
   \<and> isEligible (Obj [(''items'', Arr [Obj [(''qty'', Num 1)], Obj [(''qty'', Num 5)]])])
       (Obj [(''items.qty'', Obj [(''gte'', Num 10)])])
     = Inr False"
  using path_broadcast_example by simp

subsection \<open>Logical operators on an empty operand\<close>

text \<open>
  C7. For every resolved value, the operator \<open>and\<close> with an empty operand mapping
  yields true and the operator \<open>or\<close> with an empty operand mapping yields false, both
  in \<open>_evaluateLogicalOperation\<close> itself and when reached through the registry by
  \<open>_evaluateOperation\<close>.
\<close>

theorem logical_operation_empty_operand:
  "evaluateLogicalOperation ''and'' cartValue (Obj []) = Inr True
   \<and> evaluateLogicalOperation ''or'' cartValue (Obj []) = Inr False
   \<and> evaluateOperation ''and'' cartValue (Obj []) = Inr True
   \<and> evaluateOperation ''or'' cartValue (Obj []) = Inr False"
  by (simp add: evaluateOperation.simps evaluateLogicalOperation.simps
        Object_entries_def operations_def)

subsection \<open>Empty criteria\<close>

text \<open>
  C8. For every record that passes the check of the arguments, \<open>isEligible\<close> with the
  empty criteria \<open>{}\<close> returns true.
\<close>

theorem empty_criteria_eligible:
  "isObject record \<Longrightarrow> isEligible record (Obj []) = Inr True"
  by (simp add: isEligible_def Object_entries_def)

text \<open>A record with one field.\<close>

theorem empty_criteria_eligible_witness:
  "isEligible (Obj [(''total'', Num 10)]) (Obj []) = Inr True"
  using empty_criteria_eligible [of "Obj [(''total'', Num 10)]"] by simp

subsection \<open>A path that resolves to an empty sequence\<close>

text \<open>
  C9, as amended. Whenever the value resolved at a criteria path is an empty sequence,
  that criteria entry evaluates to false for every condition whatsoever, so
  \<open>isEligible\<close> never returns true for criteria containing such an entry: it returns
  false, unless evaluating the entries listed before that entry, as criteria of their
  own, ends with an error, in which case \<open>isEligible\<close> ends with that error.
\<close>

theorem empty_sequence_entry_false:
  assumes cart: "isObject cart" and criteria: "isObject criteria"
    and entries: "Object_entries criteria = Inr (before @ (key, condition) # rest)"
    and empty: "getValueByKey cart key = Arr []"
  shows "evaluateCondition (getValueByKey cart key) condition = Inr False
     \<and> isEligible cart criteria \<noteq> Inr True
     \<and> isEligible cart criteria
         = (case isEligible cart (Obj before) of
              Inl e \<Rightarrow> Inl e
            | Inr verdict \<Rightarrow> Inr False)"
proof -
  let ?f = "\<lambda>(k, c). evaluateCondition (getValueByKey cart k) c"
  have here: "?f (key, condition) = Inr False"
    by (simp add: empty evaluateCondition_array)
  have run: "isEligible cart criteria = every_e ?f (before @ (key, condition) # rest)"
    using cart criteria entries by (simp add: isEligible_def)
  have earlier: "isEligible cart (Obj before) = every_e ?f before"
    using cart by (simp add: isEligible_def Object_entries_def)
  have "every_e ?f (before @ (key, condition) # rest) \<noteq> Inr True"
    using here by (intro every_e_not_True [of "(key, condition)"]) simp_all
  moreover have "every_e ?f (before @ (key, condition) # rest)
      = (case every_e ?f before of Inl e \<Rightarrow> Inl e | Inr verdict \<Rightarrow> Inr False)"
    using here by (simp add: every_e_append split: sum.splits)
  ultimately show ?thesis using here run earlier by simp
qed

text \<open>
  The record \<open>{a: 1, items: []}\<close>, whose path \<open>items.qty\<close> runs through the empty array.
  With the criteria \<open>{"a": 1, "items.qty": {"gte": 0}}\<close> the entry before it holds and
  the call returns false; with \<open>{"a": {"foo": 1}, "items.qty": {"gte": 0}}\<close> the entry
  before it throws and the call ends with its error.
\<close>

theorem empty_sequence_entry_false_witness:
  "isEligible (Obj [(''a'', Num 1), (''items'', Arr [])])
       (Obj [(''a'', Num 1), (''items.qty'', Obj [(''gte'', Num 0)])])
     = Inr False
   \<and> isEligible (Obj [(''a'', Num 1), (''items'', Arr [])])
       (Obj [(''a'', Obj [(''foo'', Num 1)]), (''items.qty'', Obj [(''gte'', Num 0)])])
     = Inl (InvalidCriteriaError ''Unsupported operation: foo'')"
proof -
  have empty: "getValueByKey (Obj [(''a'', Num 1), (''items'', Arr [])]) ''items.qty'' = Arr []"
    by code_simp
  have holds: "isEligible (Obj [(''a'', Num 1), (''items'', Arr [])]) (Obj [(''a'', Num 1)])
      = Inr True"
    by code_simp
  have throws: "isEligible (Obj [(''a'', Num 1), (''items'', Arr [])])
      (Obj [(''a'', Obj [(''foo'', Num 1)])])
      = Inl (InvalidCriteriaError ''Unsupported operation: foo'')"
    by code_simp
  show ?thesis
    using empty_sequence_entry_false
        [of "Obj [(''a'', Num 1), (''items'', Arr [])]"
            "Obj [(''a'', Num 1), (''items.qty'', Obj [(''gte'', Num 0)])]"
            "[(''a'', Num 1)]" "''items.qty''" "Obj [(''gte'', Num 0)]" "[]"]
      empty_sequence_entry_false
        [of "Obj [(''a'', Num 1), (''items'', Arr [])]"
            "Obj [(''a'', Obj [(''foo'', Num 1)]), (''items.qty'', Obj [(''gte'', Num 0)])]"
            "[(''a'', Obj [(''foo'', Num 1)])]" "''items.qty''" "Obj [(''gte'', Num 0)]" "[]"]
      empty holds throws
    by (simp add: Object_entries_def)
qed

text \<open>
  C9 as stated fails when an earlier entry throws: in the record \<open>{a: 1, items: []}\<close>
  the path \<open>items\<close> resolves to an empty sequence, and with the criteria
  \<open>{"a": {"foo": 1}, "items": 1}\<close> the call does not return false but ends with the
  error of the first entry.
\<close>

theorem earlier_entry_throws_first:
  "getValueByKey (Obj [(''a'', Num 1), (''items'', Arr [])]) ''items'' = Arr []
   \<and> isEligible (Obj [(''a'', Num 1), (''items'', Arr [])])
       (Obj [(''a'', Obj [(''foo'', Num 1)]), (''items'', Num 1)])
     = Inl (InvalidCriteriaError ''Unsupported operation: foo'')"
  by code_simp

subsection \<open>A condition without entries on an object\<close>

text \<open>
  C10. Whenever the resolved value is an object that is not an array and the condition
  is a value with no enumerable own entries, such as a number, a boolean or a date,
  condition matching succeeds vacuously.
\<close>

theorem entryless_condition_matches_object:
  assumes "isObject cartValue" and "\<not> isArray cartValue"
  shows "(Object_entries condition = Inr [] \<longrightarrow> evaluateCondition cartValue condition = Inr True)
     \<and> evaluateCondition cartValue (Num n) = Inr True
     \<and> evaluateCondition cartValue (Bool b) = Inr True
     \<and> evaluateCondition cartValue (Date t) = Inr True"
  using assms by (simp add: evaluateCondition_object Object_entries_def)

text \<open>
  The example of the claim: the record \<open>{user: {age: 25}}\<close> with the criteria
  \<open>{"user": 42}\<close> yields true.
\<close>

theorem entryless_condition_matches_object_witness:
  "isEligible (Obj [(''user'', Obj [(''age'', Num 25)])]) (Obj [(''user'', Num 42)])
     = Inr True"
  using entryless_condition_matches_object [of "Obj [(''age'', Num 25)]" "Num 42" 42]
  by (simp add: isEligible_def Object_entries_def getValueByKey_def)

end
